theory Spec2Isabelle
  imports Main "HOL-Library.Word"
begin

section \<open>JavaScript strings\<close>

text \<open>
  A JavaScript string is a sequence of 16-bit code units. The handlers of
  \<^verbatim>\<open>frontend/src/App.js\<close> use four string operations of the language:
  truthiness (a string is falsy exactly when it is empty), \<^verbatim>\<open>trim\<close>,
  \<^verbatim>\<open>endsWith\<close> and \<^verbatim>\<open>encodeURIComponent\<close>. They are written out
  here as ECMAScript defines them, on code units.
\<close>

type_synonym jsstring = "16 word list"

definition js :: "string \<Rightarrow> jsstring" where
  "js cs = map (\<lambda>c. of_char c) cs"

text \<open>\<^verbatim>\<open>a || b\<close> on strings: \<^verbatim>\<open>b\<close> when \<^verbatim>\<open>a\<close> is the empty string.\<close>

definition orElse :: "jsstring \<Rightarrow> jsstring \<Rightarrow> jsstring" where
  "orElse a b = (if a = [] then b else a)"

text \<open>
  The code units that \<^verbatim>\<open>String.prototype.trim\<close> strips: WhiteSpace (TAB, VT, FF,
  ZWNBSP and the Unicode space separators) and LineTerminator (LF, CR, LS, PS).
\<close>

definition isWhiteSpace :: "16 word \<Rightarrow> bool" where
  "isWhiteSpace c \<longleftrightarrow>
     c \<in> {0x09, 0x0A, 0x0B, 0x0C, 0x0D, 0x20, 0xA0, 0x1680,
          0x2028, 0x2029, 0x202F, 0x205F, 0x3000, 0xFEFF}
     \<or> (0x2000 \<le> c \<and> c \<le> 0x200A)"

definition trim :: "jsstring \<Rightarrow> jsstring" where
  "trim s = rev (dropWhile isWhiteSpace (rev (dropWhile isWhiteSpace s)))"

definition endsWith :: "jsstring \<Rightarrow> jsstring \<Rightarrow> bool" where
  "endsWith s suffix \<longleftrightarrow>
     length suffix \<le> length s \<and> drop (length s - length suffix) s = suffix"

subsection \<open>encodeURIComponent\<close>

datatype js_error = URIError

definition isLeadingSurrogate :: "16 word \<Rightarrow> bool" where
  "isLeadingSurrogate c \<longleftrightarrow> 0xD800 \<le> c \<and> c \<le> 0xDBFF"

definition isTrailingSurrogate :: "16 word \<Rightarrow> bool" where
  "isTrailingSurrogate c \<longleftrightarrow> 0xDC00 \<le> c \<and> c \<le> 0xDFFF"

text \<open>The characters left as they are: letters, digits and \<^verbatim>\<open>- _ . ! ~ * ' ( )\<close>.\<close>

definition uriUnreserved :: "16 word \<Rightarrow> bool" where
  "uriUnreserved c \<longleftrightarrow>
     (0x41 \<le> c \<and> c \<le> 0x5A) \<or> (0x61 \<le> c \<and> c \<le> 0x7A) \<or> (0x30 \<le> c \<and> c \<le> 0x39)
     \<or> c \<in> {0x2D, 0x5F, 0x2E, 0x21, 0x7E, 0x2A, 0x27, 0x28, 0x29}"

definition hexDigit :: "nat \<Rightarrow> 16 word" where
  "hexDigit n = (if n < 10 then of_nat (0x30 + n) else of_nat (0x41 + (n - 10)))"

definition percentEncode :: "nat \<Rightarrow> jsstring" where
  "percentEncode octet = [0x25, hexDigit (octet div 16), hexDigit (octet mod 16)]"

definition utf8Octets :: "nat \<Rightarrow> nat list" where
  "utf8Octets cp =
     (if cp < 0x80 then [cp]
      else if cp < 0x800 then [0xC0 + cp div 64, 0x80 + cp mod 64]
      else if cp < 0x10000 then
        [0xE0 + cp div 4096, 0x80 + (cp div 64) mod 64, 0x80 + cp mod 64]
      else
        [0xF0 + cp div 262144, 0x80 + (cp div 4096) mod 64,
         0x80 + (cp div 64) mod 64, 0x80 + cp mod 64])"

definition escapeCodePoint :: "nat \<Rightarrow> jsstring" where
  "escapeCodePoint cp = concat (map percentEncode (utf8Octets cp))"

definition surrogatePairToCodePoint :: "16 word \<Rightarrow> 16 word \<Rightarrow> nat" where
  "surrogatePairToCodePoint lead trail =
     (unat lead - 0xD800) * 0x400 + (unat trail - 0xDC00) + 0x10000"

definition prepend :: "jsstring \<Rightarrow> js_error + jsstring \<Rightarrow> js_error + jsstring" where
  "prepend p r = (case r of Inl e \<Rightarrow> Inl e | Inr s \<Rightarrow> Inr (p @ s))"

text \<open>
  The abstract operation Encode of ECMAScript with the unreserved set of
  \<^verbatim>\<open>encodeURIComponent\<close>: an unpaired surrogate throws a URIError.
\<close>

fun encodeURIComponent :: "jsstring \<Rightarrow> js_error + jsstring" where
  "encodeURIComponent [] = Inr []"
| "encodeURIComponent (c # cs) =
     (if uriUnreserved c then prepend [c] (encodeURIComponent cs)
      else if isTrailingSurrogate c then Inl URIError
      else if isLeadingSurrogate c then
        (case cs of
           [] \<Rightarrow> Inl URIError
         | d # ds \<Rightarrow>
             if isTrailingSurrogate d
             then prepend (escapeCodePoint (surrogatePairToCodePoint c d)) (encodeURIComponent ds)
             else Inl URIError)
      else prepend (escapeCodePoint (unat c)) (encodeURIComponent cs))"

text \<open>\<^verbatim>\<open>String.prototype.isWellFormed\<close>: no unpaired surrogate.\<close>

fun isWellFormed :: "jsstring \<Rightarrow> bool" where
  "isWellFormed [] = True"
| "isWellFormed (c # cs) =
     (if isTrailingSurrogate c then False
      else if isLeadingSurrogate c then
        (case cs of [] \<Rightarrow> False | d # ds \<Rightarrow> isTrailingSurrogate d \<and> isWellFormed ds)
      else isWellFormed cs)"

section \<open>The component state and its environment\<close>

text \<open>
  The \<^verbatim>\<open>useState\<close> cells of \<^verbatim>\<open>App\<close> (lines 7 to 16), with their
  source names. The \<^verbatim>\<open>alert\<close> cell holds an object
  \<^verbatim>\<open>{ show, type, message }\<close>.
\<close>

record alert_box =
  alert_show :: bool
  alert_type :: jsstring
  alert_message :: jsstring

record session =
  transcript :: jsstring
  customPrompt :: jsstring
  summary :: jsstring
  summaryId :: jsstring
  fileName :: jsstring
  loading :: bool
  alert :: alert_box
  recipientEmails :: jsstring
  editMode :: bool
  inputMethod :: jsstring

text \<open>
  What the handlers do to the world outside the component: \<^verbatim>\<open>fetch\<close> calls
  (every request issued, and those whose promise has not settled yet),
  \<^verbatim>\<open>setTimeout\<close> callbacks (all of them are the alert reset of
  \<^verbatim>\<open>showAlert\<close>, so a pending timer is its due time in milliseconds) and
  assignments to \<^verbatim>\<open>window.location.href\<close>. Calls of \<^verbatim>\<open>console.error\<close>
  are left out.
\<close>

record js_file =
  name :: jsstring
  content :: jsstring

datatype request =
    UploadTranscript js_file
  | GenerateSummary jsstring jsstring
  | UpdateSummary jsstring jsstring

record world = session +
  now :: nat
  timers :: "nat list"
  requests :: "request list"
  inflight :: "request list"
  navigations :: "jsstring list"

text \<open>
  How an awaited \<^verbatim>\<open>fetch\<close> followed by \<^verbatim>\<open>response.json()\<close> ends: one of
  the two promises rejects with an error carrying a message, or a response with
  its \<^verbatim>\<open>ok\<close> flag and a parsed body arrives. The body's fields are those the
  handlers read.
\<close>

record reply =
  response_ok :: bool
  data_success :: bool
  data_detail :: "jsstring option"
  data_transcript :: jsstring
  data_summary :: jsstring
  data_summary_id :: jsstring

datatype outcome = Threw jsstring | Replied reply

definition failed :: "outcome \<Rightarrow> bool" where
  "failed out = (case out of Threw m \<Rightarrow> True | Replied r \<Rightarrow> \<not> (response_ok r \<and> data_success r))"

definition no_alert :: alert_box where
  "no_alert = \<lparr>alert_show = False, alert_type = [], alert_message = []\<rparr>"

definition initial :: world where
  "initial =
     \<lparr>transcript = [], customPrompt = [], summary = [], summaryId = [], fileName = [],
      loading = False, alert = no_alert, recipientEmails = [], editMode = False,
      inputMethod = js ''paste'',
      now = 0, timers = [], requests = [], inflight = [], navigations = []\<rparr>"

section \<open>The handlers\<close>

definition showAlert :: "jsstring \<Rightarrow> jsstring \<Rightarrow> world \<Rightarrow> world" where
  "showAlert ty msg w =
     w\<lparr>alert := \<lparr>alert_show = True, alert_type = ty, alert_message = msg\<rparr>,
       timers := timers w @ [now w + 4000]\<rparr>"

text \<open>
  Time passes by \<open>d\<close> milliseconds with no other event: every timer that has come
  due runs its callback, which resets the alert cell, and is gone.
\<close>

definition advance :: "nat \<Rightarrow> world \<Rightarrow> world" where
  "advance d w =
     w\<lparr>alert := (if list_ex (\<lambda>due. due \<le> now w + d) (timers w) then no_alert else alert w),
       now := now w + d,
       timers := filter (\<lambda>due. now w + d < due) (timers w)\<rparr>"

definition fetch :: "request \<Rightarrow> world \<Rightarrow> world" where
  "fetch r w = w\<lparr>requests := requests w @ [r], inflight := inflight w @ [r]\<rparr>"

text \<open>\<^verbatim>\<open>data.detail || fallback\<close>, where \<^verbatim>\<open>detail\<close> may be absent.\<close>

definition detailOr :: "jsstring option \<Rightarrow> jsstring \<Rightarrow> jsstring" where
  "detailOr d fallback = (case d of None \<Rightarrow> fallback | Some m \<Rightarrow> orElse m fallback)"

subsection \<open>handleFileUpload\<close>

text \<open>
  Each async handler is two functions: the part that runs up to the awaited
  \<^verbatim>\<open>fetch\<close>, and the part that runs when the promise settles (suffix
  \<open>_resume\<close>), which acts on the state of that later moment. The argument of
  \<open>handleFileUpload\<close> is \<^verbatim>\<open>event.target.files[0]\<close>.
\<close>

definition handleFileUpload :: "js_file option \<Rightarrow> world \<Rightarrow> world" where
  "handleFileUpload f w =
     (case f of
        None \<Rightarrow> w
      | Some file \<Rightarrow>
          if \<not> endsWith (name file) (js ''.txt'')
          then showAlert (js ''error'') (js ''Please upload a .txt file only'') w
          else fetch (UploadTranscript file) (w\<lparr>loading := True\<rparr>))"

definition handleFileUpload_resume :: "js_file \<Rightarrow> outcome \<Rightarrow> world \<Rightarrow> world" where
  "handleFileUpload_resume file out w =
     (case out of
        Replied r \<Rightarrow>
          if response_ok r \<and> data_success r
          then (showAlert (js ''success'') (js ''Transcript uploaded successfully!'')
                  (w\<lparr>transcript := data_transcript r, fileName := name file\<rparr>))\<lparr>loading := False\<rparr>
          else (showAlert (js ''error'')
                  (orElse (detailOr (data_detail r) (js ''Upload failed''))
                     (js ''Failed to upload transcript'')) w)\<lparr>loading := False\<rparr>
      | Threw m \<Rightarrow>
          (showAlert (js ''error'') (orElse m (js ''Failed to upload transcript'')) w)
            \<lparr>loading := False\<rparr>)"

subsection \<open>handleGenerateSummary\<close>

definition handleGenerateSummary :: "world \<Rightarrow> world" where
  "handleGenerateSummary w =
     (if trim (transcript w) = []
      then showAlert (js ''error'') (js ''Please provide a transcript first'') w
      else if trim (customPrompt w) = []
      then showAlert (js ''error'') (js ''Please enter a custom instruction'') w
      else fetch (GenerateSummary (transcript w) (customPrompt w)) (w\<lparr>loading := True\<rparr>))"

definition handleGenerateSummary_resume :: "outcome \<Rightarrow> world \<Rightarrow> world" where
  "handleGenerateSummary_resume out w =
     (case out of
        Replied r \<Rightarrow>
          if response_ok r \<and> data_success r
          then (showAlert (js ''success'') (js ''Summary generated successfully!'')
                  (w\<lparr>summary := data_summary r, summaryId := data_summary_id r,
                     editMode := True\<rparr>))\<lparr>loading := False\<rparr>
          else (showAlert (js ''error'')
                  (orElse (detailOr (data_detail r) (js ''Summary generation failed''))
                     (js ''Failed to generate summary'')) w)\<lparr>loading := False\<rparr>
      | Threw m \<Rightarrow>
          (showAlert (js ''error'') (orElse m (js ''Failed to generate summary'')) w)
            \<lparr>loading := False\<rparr>)"

subsection \<open>handleUpdateSummary\<close>

definition handleUpdateSummary :: "world \<Rightarrow> world" where
  "handleUpdateSummary w =
     (if summaryId w = [] \<or> trim (summary w) = [] then w
      else fetch (UpdateSummary (summaryId w) (summary w)) (w\<lparr>loading := True\<rparr>))"

definition handleUpdateSummary_resume :: "outcome \<Rightarrow> world \<Rightarrow> world" where
  "handleUpdateSummary_resume out w =
     (case out of
        Replied r \<Rightarrow>
          if response_ok r \<and> data_success r
          then (showAlert (js ''success'') (js ''Summary updated successfully!'') w)
                 \<lparr>editMode := False, loading := False\<rparr>
          else (showAlert (js ''error'')
                  (orElse (detailOr (data_detail r) (js ''Update failed''))
                     (js ''Failed to update summary'')) w)\<lparr>loading := False\<rparr>
      | Threw m \<Rightarrow>
          (showAlert (js ''error'') (orElse m (js ''Failed to update summary'')) w)
            \<lparr>loading := False\<rparr>)"

subsection \<open>handleSendEmail\<close>

definition emailBody :: "jsstring \<Rightarrow> jsstring" where
  "emailBody s =
     js ''Hi,\<newline>\<newline>Please find the meeting summary below:\<newline>\<newline>'' @ s
       @ js ''\<newline>\<newline>Best regards''"

definition mailtoQuery :: "jsstring \<Rightarrow> jsstring \<Rightarrow> jsstring \<Rightarrow> jsstring" where
  "mailtoQuery recipientEmails' subject body =
     (if recipientEmails' \<noteq> []
      then js ''?subject='' @ subject @ js ''&body='' @ body
      else js ''?subject='' @ subject @ js ''&body='' @ body)"

definition handleSendEmail :: "world \<Rightarrow> js_error + world" where
  "handleSendEmail w =
     (if trim (summary w) = []
      then Inr (showAlert (js ''error'') (js ''No summary to send'') w)
      else if editMode w
      then Inr (showAlert (js ''error'') (js ''Please save your edits before sending'') w)
      else
        (case encodeURIComponent (js ''Meeting Summary'') of
           Inl e \<Rightarrow> Inl e
         | Inr subject \<Rightarrow>
             (case encodeURIComponent (emailBody (summary w)) of
                Inl e \<Rightarrow> Inl e
              | Inr body \<Rightarrow>
                  Inr (showAlert (js ''success'') (js ''Email client opened with summary'')
                        (w\<lparr>navigations := navigations w @
                             [js ''mailto:'' @ recipientEmails w
                                @ mailtoQuery (recipientEmails w) subject body]\<rparr>)))))"

subsection \<open>clearAll and the inline handlers\<close>

definition clearAll :: "world \<Rightarrow> world" where
  "clearAll w =
     w\<lparr>transcript := [], summary := [], customPrompt := [], fileName := [],
       summaryId := [], editMode := False, recipientEmails := []\<rparr>"

text \<open>
  The \<^verbatim>\<open>onChange\<close> of the paste textarea (line 248) and the \<^verbatim>\<open>onClick\<close> of
  the Edit/Save button (line 364).
\<close>

definition onChange_transcript :: "jsstring \<Rightarrow> world \<Rightarrow> world" where
  "onChange_transcript text w = w\<lparr>transcript := text\<rparr>"

definition onClick_editSave :: "world \<Rightarrow> world" where
  "onClick_editSave w = (if editMode w then handleUpdateSummary w else w\<lparr>editMode := True\<rparr>)"

definition setInputMethod :: "jsstring \<Rightarrow> world \<Rightarrow> world" where
  "setInputMethod m w = w\<lparr>inputMethod := m\<rparr>"

subsection \<open>Settling a request\<close>

text \<open>
  The oldest request in flight settles with \<open>out\<close>, and the handler that awaited
  it resumes.
\<close>

definition settle :: "outcome \<Rightarrow> world \<Rightarrow> world" where
  "settle out w =
     (case inflight w of
        [] \<Rightarrow> w
      | r # rs \<Rightarrow>
          (case r of
             UploadTranscript file \<Rightarrow> handleFileUpload_resume file out (w\<lparr>inflight := rs\<rparr>)
           | GenerateSummary t p \<Rightarrow> handleGenerateSummary_resume out (w\<lparr>inflight := rs\<rparr>)
           | UpdateSummary i s \<Rightarrow> handleUpdateSummary_resume out (w\<lparr>inflight := rs\<rparr>)))"

section \<open>What the rendered page lets the user trigger\<close>

text \<open>
  The five controls that start an operation, as the JSX renders them: whether the
  control is on the page at all (the summary button and the send button sit inside
  \<^verbatim>\<open>{summary && ...}\<close>, the file input inside the upload branch of
  \<^verbatim>\<open>inputMethod === 'paste' ? ... : ...\<close>) and its \<^verbatim>\<open>disabled\<close> attribute
  (lines 323, 365 and 436; the clear button and the file input have none).
\<close>

datatype trigger = Generate | Save | Send | Upload | Clear

fun rendered :: "trigger \<Rightarrow> world \<Rightarrow> bool" where
  "rendered Generate w = True"
| "rendered Clear w = True"
| "rendered Save w = (summary w \<noteq> [])"
| "rendered Send w = (summary w \<noteq> [])"
| "rendered Upload w = (inputMethod w \<noteq> js ''paste'')"

fun disabled :: "trigger \<Rightarrow> world \<Rightarrow> bool" where
  "disabled Generate w = (loading w \<or> transcript w = [] \<or> customPrompt w = [])"
| "disabled Clear w = False"
| "disabled Save w = loading w"
| "disabled Send w = editMode w"
| "disabled Upload w = False"

definition available :: "trigger \<Rightarrow> world \<Rightarrow> bool" where
  "available t w = (rendered t w \<and> \<not> disabled t w)"

section \<open>Sample files, replies and sessions\<close>

definition notes_txt :: js_file where
  "notes_txt = \<lparr>name = js ''notes.txt'', content = js ''Team discussed Q3 roadmap.''\<rparr>"

definition notes_pdf :: js_file where
  "notes_pdf = \<lparr>name = js ''notes.pdf'', content = []\<rparr>"

definition NOTES_TXT :: js_file where
  "NOTES_TXT = \<lparr>name = js ''NOTES.TXT'', content = []\<rparr>"

definition upload_ok :: reply where
  "upload_ok =
     \<lparr>response_ok = True, data_success = True, data_detail = None,
      data_transcript = js ''Team discussed Q3 roadmap.'', data_summary = [],
      data_summary_id = []\<rparr>"

definition server_error :: reply where
  "server_error =
     \<lparr>response_ok = False, data_success = False, data_detail = Some (js ''Summary not found''),
      data_transcript = [], data_summary = [], data_summary_id = []\<rparr>"

text \<open>Whitespace only, and a string that ends in half a surrogate pair.\<close>

definition blank :: jsstring where
  "blank = [0x20, 0x09, 0x0A, 0xA0, 0x3000]"

definition lone_surrogate :: jsstring where
  "lone_surrogate = [0x4F, 0x4B, 0xD83D]"

text \<open>A summary under edit, with and without its identifier; a saved summary.\<close>

definition editing_session :: world where
  "editing_session =
     initial\<lparr>summary := js ''edited text'', summaryId := js ''s1'', editMode := True\<rparr>"

definition orphan_edit :: world where
  "orphan_edit = initial\<lparr>summary := js ''edited text'', editMode := True\<rparr>"

definition reviewing :: world where
  "reviewing = initial\<lparr>summary := js ''- Ship v2'', summaryId := js ''abc123''\<rparr>"

text \<open>Runs of the handlers from the initial state.\<close>

definition uploading :: world where
  "uploading = handleFileUpload (Some notes_txt) (setInputMethod (js ''upload'') initial)"

definition uploaded :: world where
  "uploaded = settle (Replied upload_ok) uploading"

definition reviewing_uploading :: world where
  "reviewing_uploading =
     handleFileUpload (Some notes_txt) (setInputMethod (js ''upload'') reviewing)"

definition generating :: world where
  "generating =
     handleGenerateSummary
       (initial\<lparr>transcript := js ''Team discussed Q3 roadmap.'',
                customPrompt := js ''List action items''\<rparr>)"

definition failed_validation :: world where
  "failed_validation = handleGenerateSummary initial"

definition first_alert :: world where
  "first_alert = showAlert (js ''error'') (js ''Please provide a transcript first'') initial"

definition second_alert :: world where
  "second_alert =
     showAlert (js ''success'') (js ''Transcript uploaded successfully!'') (advance 3000 first_alert)"

text \<open>A string without surrogate code units.\<close>

definition plain :: "jsstring \<Rightarrow> bool" where
  "plain s = list_all (\<lambda>c. \<not> isTrailingSurrogate c \<and> \<not> isLeadingSurrogate c) s"

section \<open>Auxiliary facts\<close>

lemmas literal_defs = js_def initial_def no_alert_def notes_txt_def notes_pdf_def NOTES_TXT_def
  upload_ok_def server_error_def editing_session_def orphan_edit_def reviewing_def

lemmas handler_defs = handleFileUpload_def handleFileUpload_resume_def handleGenerateSummary_def
  handleGenerateSummary_resume_def handleUpdateSummary_def handleUpdateSummary_resume_def
  showAlert_def fetch_def settle_def clearAll_def onChange_transcript_def setInputMethod_def
  endsWith_def

lemmas run_defs = uploading_def uploaded_def reviewing_uploading_def generating_def
  failed_validation_def first_alert_def second_alert_def

lemma all_dropWhile: "(\<forall>x \<in> set (dropWhile P s). P x) \<longleftrightarrow> (\<forall>x \<in> set s. P x)"
  by (induction s) auto

lemma trim_Nil_iff: "trim s = [] \<longleftrightarrow> (\<forall>c \<in> set s. isWhiteSpace c)"
  by (simp add: trim_def dropWhile_eq_Nil_conv all_dropWhile)

lemma prepend_Inr: "prepend p r = Inr b \<longleftrightarrow> (\<exists>s. r = Inr s \<and> b = p @ s)"
  by (cases r) (auto simp: prepend_def)

lemma unreserved_not_surrogate:
  "uriUnreserved c \<Longrightarrow> \<not> isTrailingSurrogate c \<and> \<not> isLeadingSurrogate c"
  by (auto simp: uriUnreserved_def isTrailingSurrogate_def isLeadingSurrogate_def word_le_nat_alt)

text \<open>encodeURIComponent returns exactly on the well-formed strings.\<close>

lemma encode_wf: "(\<exists>b. encodeURIComponent s = Inr b) \<longleftrightarrow> isWellFormed s"
proof (induction s rule: isWellFormed.induct)
  case 1
  show ?case by simp
next
  case (2 c cs)
  show ?case
  proof (cases "uriUnreserved c")
    case True
    then have "\<not> isTrailingSurrogate c" "\<not> isLeadingSurrogate c"
      using unreserved_not_surrogate by blast+
    with True 2 show ?thesis by (simp add: prepend_Inr)
  next
    case False
    show ?thesis
    proof (cases "isTrailingSurrogate c")
      case True
      with False show ?thesis by simp
    next
      case nt: False
      show ?thesis
      proof (cases "isLeadingSurrogate c")
        case True
        with False nt 2 show ?thesis
          by (cases cs) (simp_all add: prepend_Inr)
      next
        case nl: False
        with False nt 2 show ?thesis by (simp add: prepend_Inr)
      qed
    qed
  qed
qed

lemma encode_throws: "\<not> isWellFormed s \<Longrightarrow> encodeURIComponent s = Inl URIError"
  using encode_wf [of s]
  by (cases "encodeURIComponent s") (auto intro: js_error.exhaust)

lemma wf_plain_prefix: "plain a \<Longrightarrow> isWellFormed (a @ s) = isWellFormed s"
  by (induction a) (simp_all add: plain_def)

lemma wf_plain_suffix: "plain b \<Longrightarrow> isWellFormed (s @ b) = isWellFormed s"
proof (induction s rule: isWellFormed.induct)
  case 1
  then show ?case using wf_plain_prefix [of b "[]"] by simp
next
  case (2 c cs)
  show ?case
  proof (cases "isLeadingSurrogate c \<and> \<not> isTrailingSurrogate c")
    case True
    show ?thesis
    proof (cases cs)
      case Nil
      with True 2(3) show ?thesis by (cases b) (simp_all add: plain_def)
    next
      case (Cons d ds)
      with True 2 show ?thesis by simp
    qed
  next
    case False
    with 2 show ?thesis by auto
  qed
qed

lemma wf_emailBody: "isWellFormed (emailBody s) = isWellFormed s"
proof -
  have p1: "plain (js ''Hi,\<newline>\<newline>Please find the meeting summary below:\<newline>\<newline>'')"
    by (simp add: plain_def js_def isTrailingSurrogate_def isLeadingSurrogate_def)
  have p2: "plain (js ''\<newline>\<newline>Best regards'')"
    by (simp add: plain_def js_def isTrailingSurrogate_def isLeadingSurrogate_def)
  show ?thesis
    unfolding emailBody_def
    by (simp only: wf_plain_prefix [OF p1] wf_plain_suffix [OF p2])
qed

lemma encode_subject: "encodeURIComponent (js ''Meeting Summary'') = Inr (js ''Meeting%20Summary'')"
  by (simp add: js_def uriUnreserved_def isTrailingSurrogate_def isLeadingSurrogate_def
      prepend_def escapeCodePoint_def utf8Octets_def percentEncode_def hexDigit_def)

lemma mailtoQuery_subject:
  "mailtoQuery r (js ''Meeting%20Summary'') body = js ''?subject=Meeting%20Summary&body='' @ body"
  by (simp add: mailtoQuery_def js_def)

section \<open>clearAll\<close>

text \<open>
  clearAll has no setter call for \<^verbatim>\<open>loading\<close> or \<^verbatim>\<open>alert\<close>. Cleared while an
  upload is in flight, the session is still loading; cleared after a failed validation,
  it still shows the error.
\<close>

theorem clearAll_keeps_loading_and_alert_counterexample:
  "loading (clearAll uploading) \<noteq> loading initial
   \<and> alert (clearAll failed_validation) \<noteq> alert initial"
  by (simp add: run_defs literal_defs handler_defs trim_def)

text \<open>
  C1, as the code has it. After clearAll the transcript, the instruction, the file name,
  the summary, the summary identifier and the recipients are the empty string and
  editMode is false, which are their initial values, whatever the state before; loading
  and the alert keep the values they had.
\<close>

theorem clearAll_resets_content_fields:
  "clearAll w =
     w\<lparr>transcript := [], customPrompt := [], fileName := [], summary := [], summaryId := [],
       editMode := False, recipientEmails := []\<rparr>
   \<and> transcript (clearAll w) = transcript initial
   \<and> customPrompt (clearAll w) = customPrompt initial
   \<and> fileName (clearAll w) = fileName initial
   \<and> summary (clearAll w) = summary initial
   \<and> summaryId (clearAll w) = summaryId initial
   \<and> editMode (clearAll w) = editMode initial
   \<and> recipientEmails (clearAll w) = recipientEmails initial
   \<and> loading (clearAll w) = loading w
   \<and> alert (clearAll w) = alert w"
  by (simp add: clearAll_def initial_def)

section \<open>Which controls the loading flag disables\<close>

text \<open>
  While an upload is in flight the clear button and the file input are still usable,
  and choosing a second file puts a second request in flight. With a saved summary on
  the page, the send button is usable during an upload too.
\<close>

theorem loading_does_not_gate_all_counterexample:
  "loading uploading
   \<and> available Clear uploading
   \<and> available Upload uploading
   \<and> length (inflight uploading) = 1
   \<and> length (inflight (handleFileUpload (Some notes_txt) uploading)) = 2
   \<and> loading reviewing_uploading
   \<and> available Send reviewing_uploading"
  by (simp add: available_def run_defs literal_defs handler_defs)

text \<open>
  C2, as the code has it. While loading is true the generate button and the edit/save
  button are disabled. The clear button is never disabled, and the send button depends
  on the summary and on editMode only, not on loading.
\<close>

theorem loading_gates_generate_and_save:
  "(loading w \<longrightarrow> \<not> available Generate w \<and> \<not> available Save w)
   \<and> available Clear w
   \<and> available Send w = (summary w \<noteq> [] \<and> \<not> editMode w)"
  by (simp add: available_def)

theorem loading_gates_generate_and_save_witness:
  "loading generating \<and> length (inflight generating) = 1
   \<and> \<not> available Generate generating \<and> \<not> available Save generating
   \<and> available Clear generating"
proof -
  have h: "loading generating" "length (inflight generating) = 1"
    by (simp_all add: generating_def literal_defs handler_defs trim_def isWhiteSpace_def)
  show ?thesis
    using h loading_gates_generate_and_save [of generating] by simp
qed

section \<open>handleUpdateSummary\<close>

text \<open>
  A summary under edit whose identifier is empty: the handler returns at its guard, and
  no alert is shown and no reset timer is set.
\<close>

theorem update_without_id_silent_counterexample:
  "summaryId orphan_edit = []
   \<and> \<not> alert_show (alert (handleUpdateSummary orphan_edit))
   \<and> timers (handleUpdateSummary orphan_edit) = []"
  by (simp add: literal_defs handler_defs)

text \<open>
  C3, as the code has it. In every state whose summaryId is empty, handleUpdateSummary
  returns without changing anything: no request, no notification, no state change.
\<close>

theorem update_without_id_is_noop:
  "summaryId w = [] \<Longrightarrow> handleUpdateSummary w = w"
  by (simp add: handleUpdateSummary_def)

theorem update_without_id_is_noop_witness:
  "summaryId orphan_edit = [] \<and> handleUpdateSummary orphan_edit = orphan_edit"
proof -
  have h: "summaryId orphan_edit = []" by (simp add: literal_defs)
  from h update_without_id_is_noop [OF h] show ?thesis by simp
qed

text \<open>
  C5. Let handleUpdateSummary be called with a non-empty summaryId, a non-empty summary
  and editMode true, let it issue its request, and let the request fail (a rejected
  promise, or a reply that is not ok or not a success). Then the request carried the
  identifier and the summary, loading was set, and in the state after the handler has
  resumed editMode is still true, the summary is unchanged, an error alert with a
  non-empty message is shown and loading is false.
\<close>

theorem update_failure_keeps_edits:
  assumes "summaryId w \<noteq> []" and "summary w \<noteq> []" and "editMode w"
    and "requests (handleUpdateSummary w) \<noteq> requests w" and "failed out"
  shows "requests (handleUpdateSummary w) = requests w @ [UpdateSummary (summaryId w) (summary w)]
         \<and> loading (handleUpdateSummary w)
         \<and> editMode (handleUpdateSummary_resume out (handleUpdateSummary w))
         \<and> summary (handleUpdateSummary_resume out (handleUpdateSummary w)) = summary w
         \<and> alert_show (alert (handleUpdateSummary_resume out (handleUpdateSummary w)))
         \<and> alert_type (alert (handleUpdateSummary_resume out (handleUpdateSummary w))) = js ''error''
         \<and> alert_message (alert (handleUpdateSummary_resume out (handleUpdateSummary w))) \<noteq> []
         \<and> \<not> loading (handleUpdateSummary_resume out (handleUpdateSummary w))"
proof -
  have guard: "\<not> (summaryId w = [] \<or> trim (summary w) = [])"
    using assms(4) by (auto simp: handleUpdateSummary_def)
  have ne: "orElse m (js ''Failed to update summary'') \<noteq> []" for m
    by (simp add: orElse_def js_def)
  show ?thesis
  proof (cases out)
    case (Threw m)
    with guard assms(3) ne show ?thesis
      by (simp add: handleUpdateSummary_def handleUpdateSummary_resume_def showAlert_def fetch_def)
  next
    case (Replied r)
    with assms(5) have "\<not> (response_ok r \<and> data_success r)"
      by (simp add: failed_def)
    with Replied guard assms(3) ne show ?thesis
      by (simp add: handleUpdateSummary_def handleUpdateSummary_resume_def showAlert_def fetch_def)
  qed
qed

theorem update_failure_keeps_edits_witness:
  "summaryId editing_session = js ''s1'' \<and> summary editing_session = js ''edited text''
   \<and> editMode editing_session \<and> failed (Replied server_error) \<and> failed (Threw (js ''Failed to fetch''))
   \<and> requests (handleUpdateSummary editing_session) = [UpdateSummary (js ''s1'') (js ''edited text'')]
   \<and> editMode (handleUpdateSummary_resume (Replied server_error) (handleUpdateSummary editing_session))
   \<and> summary (handleUpdateSummary_resume (Replied server_error) (handleUpdateSummary editing_session))
       = js ''edited text''
   \<and> alert_type (alert (handleUpdateSummary_resume (Replied server_error) (handleUpdateSummary editing_session)))
       = js ''error''
   \<and> \<not> loading (handleUpdateSummary_resume (Replied server_error) (handleUpdateSummary editing_session))
   \<and> editMode (handleUpdateSummary_resume (Threw (js ''Failed to fetch'')) (handleUpdateSummary editing_session))
   \<and> \<not> loading (handleUpdateSummary_resume (Threw (js ''Failed to fetch'')) (handleUpdateSummary editing_session))"
proof -
  have h1: "summaryId editing_session \<noteq> []" and h2: "summary editing_session \<noteq> []"
    and h3: "editMode editing_session"
    by (simp_all add: literal_defs)
  have h4: "requests (handleUpdateSummary editing_session) \<noteq> requests editing_session"
    by (simp add: literal_defs handler_defs trim_def isWhiteSpace_def)
  have f1: "failed (Replied server_error)" and f2: "failed (Threw (js ''Failed to fetch''))"
    by (simp_all add: failed_def literal_defs)
  show ?thesis
    using f1 f2
      update_failure_keeps_edits [OF h1 h2 h3 h4 f1]
      update_failure_keeps_edits [OF h1 h2 h3 h4 f2]
    by (simp add: literal_defs)
qed

section \<open>The paste path\<close>

text \<open>
  A file is uploaded, the user switches back to the paste tab and types: the file name
  of the upload is still in the session.
\<close>

theorem paste_keeps_fileName_counterexample:
  "fileName (onChange_transcript (js ''Pasted notes'') (setInputMethod (js ''paste'') uploaded))
     = js ''notes.txt''
   \<and> js ''notes.txt'' \<noteq> []"
  by (simp add: run_defs literal_defs handler_defs)

text \<open>
  C4, as the code has it. For every string, the paste path sets the transcript to that
  string and changes nothing else, so the file name keeps its value; it has no failure
  branch.
\<close>

theorem paste_sets_transcript_only:
  "transcript (onChange_transcript text w) = text
   \<and> fileName (onChange_transcript text w) = fileName w
   \<and> onChange_transcript text w = w\<lparr>transcript := text\<rparr>"
  by (simp add: onChange_transcript_def)

section \<open>handleSendEmail\<close>

text \<open>
  Two summaries that are not empty, with editMode false, for which nothing is
  dispatched: one of whitespace only, which is reported as missing, and one that ends in
  an unpaired surrogate, on which encodeURIComponent throws.
\<close>

theorem send_nonempty_summary_counterexample:
  "\<not> editMode (initial\<lparr>summary := blank\<rparr>) \<and> summary (initial\<lparr>summary := blank\<rparr>) \<noteq> []
   \<and> handleSendEmail (initial\<lparr>summary := blank\<rparr>)
       = Inr (showAlert (js ''error'') (js ''No summary to send'') (initial\<lparr>summary := blank\<rparr>))
   \<and> navigations (showAlert (js ''error'') (js ''No summary to send'') (initial\<lparr>summary := blank\<rparr>)) = []
   \<and> \<not> editMode (initial\<lparr>summary := lone_surrogate\<rparr>)
   \<and> trim (summary (initial\<lparr>summary := lone_surrogate\<rparr>)) \<noteq> []
   \<and> handleSendEmail (initial\<lparr>summary := lone_surrogate\<rparr>) = Inl URIError"
proof -
  have ws: "trim blank = []"
    by (simp add: trim_Nil_iff blank_def isWhiteSpace_def)
  have nws: "trim lone_surrogate \<noteq> []"
    by (simp add: trim_Nil_iff lone_surrogate_def isWhiteSpace_def)
  have "\<not> isWellFormed (emailBody lone_surrogate)"
    by (simp add: wf_emailBody lone_surrogate_def isTrailingSurrogate_def isLeadingSurrogate_def)
  then have "encodeURIComponent (emailBody lone_surrogate) = Inl URIError"
    by (rule encode_throws)
  with ws nws show ?thesis
    by (simp add: handleSendEmail_def encode_subject showAlert_def initial_def blank_def)
qed

text \<open>
  C6, as the code has it. Whenever editMode is true, or the trimmed summary is empty,
  handleSendEmail shows an error alert (``No summary to send'' for the empty summary,
  otherwise ``Please save your edits before sending'') and assigns no mailto address.
  Whenever editMode is false, the trimmed summary is not empty and the summary is
  well-formed UTF-16, it assigns the mailto address built from the recipients, the
  encoded subject and the encoded body, and shows the success alert.
\<close>

theorem send_gating:
  "(editMode w \<or> trim (summary w) = [] \<longrightarrow>
      handleSendEmail w =
        Inr (showAlert (js ''error'')
              (if trim (summary w) = [] then js ''No summary to send''
               else js ''Please save your edits before sending'') w)
      \<and> navigations (showAlert (js ''error'')
              (if trim (summary w) = [] then js ''No summary to send''
               else js ''Please save your edits before sending'') w) = navigations w)
   \<and> (\<not> editMode w \<and> trim (summary w) \<noteq> [] \<and> isWellFormed (summary w) \<longrightarrow>
      (\<exists>body. encodeURIComponent (emailBody (summary w)) = Inr body
         \<and> handleSendEmail w =
             Inr (showAlert (js ''success'') (js ''Email client opened with summary'')
                   (w\<lparr>navigations := navigations w @
                        [js ''mailto:'' @ recipientEmails w
                           @ js ''?subject=Meeting%20Summary&body='' @ body]\<rparr>))))"
proof (intro conjI impI)
  assume "editMode w \<or> trim (summary w) = []"
  then show "handleSendEmail w =
        Inr (showAlert (js ''error'')
              (if trim (summary w) = [] then js ''No summary to send''
               else js ''Please save your edits before sending'') w)"
    by (auto simp: handleSendEmail_def)
next
  show "navigations (showAlert (js ''error'')
              (if trim (summary w) = [] then js ''No summary to send''
               else js ''Please save your edits before sending'') w) = navigations w"
    by (simp add: showAlert_def)
next
  assume a: "\<not> editMode w \<and> trim (summary w) \<noteq> [] \<and> isWellFormed (summary w)"
  then have "isWellFormed (emailBody (summary w))"
    by (simp add: wf_emailBody)
  then obtain body where b: "encodeURIComponent (emailBody (summary w)) = Inr body"
    using encode_wf by blast
  have "handleSendEmail w =
          Inr (showAlert (js ''success'') (js ''Email client opened with summary'')
                (w\<lparr>navigations := navigations w @
                     [js ''mailto:'' @ recipientEmails w
                        @ js ''?subject=Meeting%20Summary&body='' @ body]\<rparr>))"
    using a b by (simp add: handleSendEmail_def encode_subject mailtoQuery_subject)
  with b show "\<exists>body. encodeURIComponent (emailBody (summary w)) = Inr body
         \<and> handleSendEmail w =
             Inr (showAlert (js ''success'') (js ''Email client opened with summary'')
                   (w\<lparr>navigations := navigations w @
                        [js ''mailto:'' @ recipientEmails w
                           @ js ''?subject=Meeting%20Summary&body='' @ body]\<rparr>))"
    by blast
qed

theorem send_gating_witness:
  "editMode editing_session
   \<and> handleSendEmail editing_session =
       Inr (showAlert (js ''error'') (js ''Please save your edits before sending'') editing_session)
   \<and> \<not> editMode reviewing \<and> trim (summary reviewing) \<noteq> [] \<and> isWellFormed (summary reviewing)
   \<and> handleSendEmail reviewing =
       Inr (showAlert (js ''success'') (js ''Email client opened with summary'')
             (reviewing\<lparr>navigations :=
                [js ''mailto:?subject=Meeting%20Summary&body=Hi%2C%0A%0APlease%20find%20the%20meeting%20summary%20below%3A%0A%0A-%20Ship%20v2%0A%0ABest%20regards'']\<rparr>))"
proof -
  have e: "editMode editing_session" "trim (summary editing_session) \<noteq> []"
    by (simp_all add: literal_defs trim_def isWhiteSpace_def)
  have r: "\<not> editMode reviewing" "trim (summary reviewing) \<noteq> []" "isWellFormed (summary reviewing)"
    by (simp_all add: literal_defs trim_def isWhiteSpace_def isTrailingSurrogate_def
        isLeadingSurrogate_def)
  have b: "encodeURIComponent (emailBody (summary reviewing)) =
      Inr (js ''Hi%2C%0A%0APlease%20find%20the%20meeting%20summary%20below%3A%0A%0A-%20Ship%20v2%0A%0ABest%20regards'')"
    by (simp add: literal_defs emailBody_def uriUnreserved_def isTrailingSurrogate_def
        isLeadingSurrogate_def prepend_def escapeCodePoint_def utf8Octets_def percentEncode_def
        hexDigit_def)
  have n: "navigations reviewing = []" "recipientEmails reviewing = []"
    by (simp_all add: literal_defs)
  have j: "js ''mailto:'' @ js ''?subject=Meeting%20Summary&body='' @ js ''Hi%2C%0A%0APlease%20find%20the%20meeting%20summary%20below%3A%0A%0A-%20Ship%20v2%0A%0ABest%20regards''
       = js ''mailto:?subject=Meeting%20Summary&body=Hi%2C%0A%0APlease%20find%20the%20meeting%20summary%20below%3A%0A%0A-%20Ship%20v2%0A%0ABest%20regards''"
    by (simp add: js_def)
  show ?thesis
    using e r send_gating [of editing_session] send_gating [of reviewing]
    by (simp add: b n j)
qed

section \<open>handleGenerateSummary\<close>

text \<open>
  C7. When the transcript and the instruction are both empty, handleGenerateSummary
  reports the transcript-missing error and never the instruction-missing one: the alert
  shown is the error ``Please provide a transcript first'', one alert is raised (one
  reset timer is added), and no request is issued. The same holds whenever the trimmed
  transcript is empty, whatever the instruction is.
\<close>

theorem generate_transcript_checked_first:
  assumes "trim (transcript w) = []"
  shows "alert (handleGenerateSummary w) =
           \<lparr>alert_show = True, alert_type = js ''error'',
            alert_message = js ''Please provide a transcript first''\<rparr>
         \<and> alert_message (alert (handleGenerateSummary w)) \<noteq> js ''Please enter a custom instruction''
         \<and> timers (handleGenerateSummary w) = timers w @ [now w + 4000]
         \<and> requests (handleGenerateSummary w) = requests w
         \<and> inflight (handleGenerateSummary w) = inflight w
         \<and> loading (handleGenerateSummary w) = loading w"
  using assms by (simp add: handleGenerateSummary_def showAlert_def js_def)

theorem generate_transcript_checked_first_witness:
  "trim (transcript initial) = [] \<and> customPrompt initial = []
   \<and> alert (handleGenerateSummary initial) =
       \<lparr>alert_show = True, alert_type = js ''error'',
        alert_message = js ''Please provide a transcript first''\<rparr>
   \<and> requests (handleGenerateSummary initial) = []"
proof -
  have h: "trim (transcript initial) = []"
    by (simp add: initial_def trim_def)
  show ?thesis
    using h generate_transcript_checked_first [OF h] by (simp add: initial_def)
qed

section \<open>handleFileUpload\<close>

text \<open>
  C8. For a file whose name does not end in ``.txt'' (compared code unit by code unit,
  so ``NOTES.TXT'' does not pass) handleFileUpload shows the error alert ``Please upload
  a .txt file only'', changes nothing else but the alert and its reset timer, and issues
  no request. For a file whose name ends in ``.txt'' it issues exactly one request, the
  upload of that file, and sets loading.
\<close>

theorem upload_file_type_gate:
  "(\<not> endsWith (name file) (js ''.txt'') \<longrightarrow>
      handleFileUpload (Some file) w =
        w\<lparr>alert := \<lparr>alert_show = True, alert_type = js ''error'',
                    alert_message = js ''Please upload a .txt file only''\<rparr>,
          timers := timers w @ [now w + 4000]\<rparr>
      \<and> requests (handleFileUpload (Some file) w) = requests w
      \<and> inflight (handleFileUpload (Some file) w) = inflight w)
   \<and> (endsWith (name file) (js ''.txt'') \<longrightarrow>
      requests (handleFileUpload (Some file) w) = requests w @ [UploadTranscript file]
      \<and> inflight (handleFileUpload (Some file) w) = inflight w @ [UploadTranscript file]
      \<and> loading (handleFileUpload (Some file) w))"
  by (simp add: handleFileUpload_def showAlert_def fetch_def)

theorem upload_file_type_gate_witness:
  "\<not> endsWith (name notes_pdf) (js ''.txt'')
   \<and> requests (handleFileUpload (Some notes_pdf) initial) = []
   \<and> alert_message (alert (handleFileUpload (Some notes_pdf) initial)) = js ''Please upload a .txt file only''
   \<and> transcript (handleFileUpload (Some notes_pdf) initial) = []
   \<and> \<not> loading (handleFileUpload (Some notes_pdf) initial)
   \<and> \<not> endsWith (name NOTES_TXT) (js ''.txt'')
   \<and> requests (handleFileUpload (Some NOTES_TXT) initial) = []
   \<and> endsWith (name notes_txt) (js ''.txt'')
   \<and> requests (handleFileUpload (Some notes_txt) initial) = [UploadTranscript notes_txt]"
proof -
  have p: "\<not> endsWith (name notes_pdf) (js ''.txt'')"
    and u: "\<not> endsWith (name NOTES_TXT) (js ''.txt'')"
    and t: "endsWith (name notes_txt) (js ''.txt'')"
    by (simp_all add: endsWith_def literal_defs)
  show ?thesis
    using p u t upload_file_type_gate [of notes_pdf initial]
      upload_file_type_gate [of NOTES_TXT initial] upload_file_type_gate [of notes_txt initial]
    by (simp add: initial_def)
qed

section \<open>The alert and its reset timer\<close>




section \<open>Emptiness is tested on the trimmed string\<close>

text \<open>
  C10. Let a transcript, an instruction or a summary consist of whitespace only. Then
  handleGenerateSummary rejects the transcript as missing, and the instruction as
  missing when the transcript is present, without a request; handleUpdateSummary issues
  no request (it changes nothing); and handleSendEmail reports ``No summary to send''.
\<close>

theorem emptiness_checks_trimmed:
  "((\<forall>c \<in> set (transcript w). isWhiteSpace c) \<longrightarrow>
      handleGenerateSummary w =
        showAlert (js ''error'') (js ''Please provide a transcript first'') w
      \<and> requests (handleGenerateSummary w) = requests w)
   \<and> (trim (transcript w) \<noteq> [] \<and> (\<forall>c \<in> set (customPrompt w). isWhiteSpace c) \<longrightarrow>
      handleGenerateSummary w =
        showAlert (js ''error'') (js ''Please enter a custom instruction'') w
      \<and> requests (handleGenerateSummary w) = requests w)
   \<and> ((\<forall>c \<in> set (summary w). isWhiteSpace c) \<longrightarrow>
      handleUpdateSummary w = w
      \<and> handleSendEmail w = Inr (showAlert (js ''error'') (js ''No summary to send'') w))"
  by (simp add: trim_Nil_iff handleGenerateSummary_def handleUpdateSummary_def
      handleSendEmail_def showAlert_def)

theorem emptiness_checks_trimmed_witness:
  "blank \<noteq> [] \<and> list_all isWhiteSpace blank
   \<and> requests (handleGenerateSummary (initial\<lparr>transcript := blank, customPrompt := js ''List action items''\<rparr>)) = []
   \<and> alert_message (alert (handleGenerateSummary (initial\<lparr>transcript := blank, customPrompt := js ''List action items''\<rparr>)))
       = js ''Please provide a transcript first''
   \<and> trim (js ''Team discussed Q3 roadmap.'') \<noteq> []
   \<and> requests (handleGenerateSummary (initial\<lparr>transcript := js ''Team discussed Q3 roadmap.'', customPrompt := blank\<rparr>)) = []
   \<and> alert_message (alert (handleGenerateSummary (initial\<lparr>transcript := js ''Team discussed Q3 roadmap.'', customPrompt := blank\<rparr>)))
       = js ''Please enter a custom instruction''
   \<and> requests (handleUpdateSummary (initial\<lparr>summary := blank, summaryId := js ''s1'', editMode := True\<rparr>)) = []
   \<and> handleSendEmail (initial\<lparr>summary := blank\<rparr>)
       = Inr (showAlert (js ''error'') (js ''No summary to send'') (initial\<lparr>summary := blank\<rparr>))"
proof -
  have ws: "\<forall>c \<in> set blank. isWhiteSpace c"
    by (simp add: blank_def isWhiteSpace_def)
  have ne: "trim (js ''Team discussed Q3 roadmap.'') \<noteq> []"
    by (simp add: trim_def js_def isWhiteSpace_def)
  show ?thesis
    using ws ne
      emptiness_checks_trimmed [of "initial\<lparr>transcript := blank, customPrompt := js ''List action items''\<rparr>"]
      emptiness_checks_trimmed [of "initial\<lparr>transcript := js ''Team discussed Q3 roadmap.'', customPrompt := blank\<rparr>"]
      emptiness_checks_trimmed [of "initial\<lparr>summary := blank, summaryId := js ''s1'', editMode := True\<rparr>"]
      emptiness_checks_trimmed [of "initial\<lparr>summary := blank\<rparr>"]
    by (simp add: showAlert_def initial_def blank_def list_all_iff)
qed

end
